theory Spec2Isabelle
  imports Main "HOL-Library.AList"
begin

section \<open>Go values, types and errors\<close>

text \<open>
  The dispatcher handles Go values through reflection. A value held in an
  \<open>interface{}\<close> is a \<open>gval\<close>; \<open>VChan\<close> stands for a value of a kind that
  \<open>encoding/json\<close> refuses to marshal (a channel, a function).
\<close>

datatype gval = VNil | VInt int | VStr string | VStruct "(string \<times> gval) list" | VChan

text \<open>
  A \<open>reflect.Type\<close>: a pointer type, or a named type with its package path, its name
  and the zero value that \<open>reflect.New\<close> allocates for it.
\<close>

datatype gotype = Ptr gotype | Named string string gval

definition typeOfError :: gotype where
  "typeOfError = Named [] ''error'' VNil"

definition typeOfRequest :: gotype where
  "typeOfRequest = Named ''net/http'' ''Request'' VNil"

fun isPtr :: "gotype \<Rightarrow> bool" where
  "isPtr (Ptr t) = True"
| "isPtr (Named p n z) = False"

fun Elem :: "gotype \<Rightarrow> gotype" where
  "Elem (Ptr t) = t"
| "Elem (Named p n z) = Named p n z"

fun typeName :: "gotype \<Rightarrow> string" where
  "typeName (Ptr t) = []"
| "typeName (Named p n z) = n"

fun typePkgPath :: "gotype \<Rightarrow> string" where
  "typePkgPath (Ptr t) = []"
| "typePkgPath (Named p n z) = p"

fun zeroOf :: "gotype \<Rightarrow> gval" where
  "zeroOf (Ptr t) = VNil"
| "zeroOf (Named p n z) = z"

text \<open>
  Modelled from the spec: the error codes \<open>E_PARSE\<close>, \<open>E_INVALID_REQ\<close>, \<open>E_NO_METHOD\<close>,
  \<open>E_BAD_PARAMS\<close>, \<open>E_INTERNAL\<close> and \<open>E_SERVER\<close> of the JSON-RPC 2.0 codec are used
  by the codec but declared in a file that is not among the sources; the spec names them
  as the fixed taxonomy (Parse Error, Invalid Request, Method Not Found, Invalid Params,
  Internal Error, Server Error). \<open>E_OTHER\<close> is any other integer a service puts into
  its own error.
\<close>

datatype ErrorCode =
  E_PARSE | E_INVALID_REQ | E_NO_METHOD | E_BAD_PARAMS | E_INTERNAL | E_SERVER | E_OTHER int

text \<open>The request envelope \<open>ServerRequest\<close>; a \<open>*json.RawMessage\<close> is an optional string.\<close>

record ServerRequest =
  Version :: string
  Method :: string
  Params :: "string option"
  Id :: "string option"

text \<open>
  What the \<open>Data\<close> member of a codec error holds: nothing, the request envelope
  (\<open>newCodecRequest\<close>), the raw parameters (\<open>ReadRequest\<close>), or a value of the service.
\<close>

datatype errdata = DNil | DReq ServerRequest | DParams "string option" | DUser gval

text \<open>
  Modelled from the spec: the structured error \<open>*Error\<close> of the codec is declared in a
  file that is not among the sources; the spec gives it a code, a message and an
  optional opaque data payload.
\<close>

record Error =
  Code :: ErrorCode
  Message :: string
  Data :: errdata

text \<open>
  A Go \<open>error\<close>: the codec's structured \<open>*Error\<close>, or any other error, of which only
  the text \<open>err.Error()\<close> matters.
\<close>

datatype goerror = PlainError string | JsonError Error

fun errorText :: "goerror \<Rightarrow> string" where
  "errorText (PlainError s) = s"
| "errorText (JsonError e) = Message e"

text \<open>
  \<open>fmt\<close>'s verb \<open>%q\<close> for a name that needs no escaping: the name between double quotes.
\<close>

definition fmt_q :: "string \<Rightarrow> string" where
  "fmt_q s = [CHR 0x22] @ s @ [CHR 0x22]"

section \<open>Strings\<close>

definition isUpperByte :: "char \<Rightarrow> bool" where
  "isUpperByte c = (65 \<le> (of_char c :: nat) \<and> (of_char c :: nat) \<le> 90)"

definition toLowerByte :: "char \<Rightarrow> char" where
  "toLowerByte c = (if isUpperByte c then char_of ((of_char c :: nat) + 32) else c)"

text \<open>\<open>strings.ToLower\<close> on ASCII text.\<close>

definition ToLower :: "string \<Rightarrow> string" where
  "ToLower s = map toLowerByte s"

text \<open>
  \<open>isExported\<close>: the first rune is an upper-case letter; the empty name decodes to
  \<open>RuneError\<close>, which is not. Names are ASCII here.
\<close>

definition isExported :: "string \<Rightarrow> bool" where
  "isExported name = (case name of [] \<Rightarrow> False | c # cs \<Rightarrow> isUpperByte c)"

fun stripPtr :: "gotype \<Rightarrow> gotype" where
  "stripPtr (Ptr t) = stripPtr t"
| "stripPtr (Named p n z) = Named p n z"

definition isExportedOrBuiltin :: "gotype \<Rightarrow> bool" where
  "isExportedOrBuiltin t =
     (isExported (typeName (stripPtr t)) \<or> typePkgPath (stripPtr t) = [])"

text \<open>\<open>isValidRouteName\<close> returns \<open>isASCII\<close>: no byte reaches \<open>utf8.RuneSelf\<close>.\<close>

definition isValidRouteName :: "string \<Rightarrow> bool" where
  "isValidRouteName s = list_all (\<lambda>c. (of_char c :: nat) < 128) s"

definition toLowerCase :: "string \<Rightarrow> goerror + string" where
  "toLowerCase s =
     (if \<not> isValidRouteName s then Inl (PlainError (''invalid route name '' @ s))
      else case s of
             [] \<Rightarrow> Inr []
           | [c] \<Rightarrow> Inr (ToLower [c])
           | c # cs \<Rightarrow> Inr (ToLower [c] @ cs))"

section \<open>The method registry (map.go)\<close>

text \<open>An HTTP request, as far as the dispatcher reads it.\<close>

record httpreq =
  reqMethod :: string
  reqHeader :: "string \<rightharpoonup> string"
  reqBody :: string

text \<open>
  A \<open>reflect.Method\<close>: name, package path (empty for an exported method), the types of
  its inputs (receiver first) and outputs, and the function itself, which takes the
  receiver, the request, the arguments and the reply buffer and gives the reply and the
  error it returns.
\<close>

record go_method =
  mName :: string
  mPkgPath :: string
  mIn :: "gotype list"
  mOut :: "gotype list"
  mFunc :: "gval \<Rightarrow> httpreq \<Rightarrow> gval \<Rightarrow> gval \<Rightarrow> gval \<times> goerror option"

text \<open>
  A receiver as reflection sees it: its value, the name of its type after
  \<open>reflect.Indirect\<close>, the text of its type, and its method set in the order of
  \<open>Type.Method(i)\<close>.
\<close>

record receiver =
  rcvrValue :: gval
  rcvrTypeName :: string
  rcvrTypeString :: string
  rcvrMethods :: "go_method list"

record service =
  svc_name :: string
  svc_rcvr :: gval
  svc_rcvrType :: string

record serviceMethod =
  sm_service :: "service option"
  sm_method :: go_method
  sm_argsType :: gotype
  sm_replyType :: gotype

record serviceMap =
  methods :: "string \<rightharpoonup> serviceMethod"
  aliases :: "string \<rightharpoonup> string"

text \<open>The first part of \<open>register\<close>: the service and its name (lines 55 to 70).\<close>

definition setupService :: "receiver \<Rightarrow> string \<Rightarrow> goerror + service" where
  "setupService rcvr name =
     (let s = \<lparr>svc_name = name, svc_rcvr = rcvrValue rcvr, svc_rcvrType = rcvrTypeString rcvr\<rparr>;
          s1 = (if name = [] then s\<lparr>svc_name := rcvrTypeName rcvr\<rparr> else s)
      in if name = [] \<and> \<not> isExported (svc_name s1)
         then Inl (PlainError (''rpc: type '' @ fmt_q (svc_name s1) @ '' is not exported''))
         else if svc_name s1 = []
         then Inl (PlainError (''rpc: no service name for type '' @ fmt_q (svc_rcvrType s1)))
         else Inr s1)"

text \<open>
  The shape contract of one method (lines 76 to 109): the dispatch key and the
  descriptor, or \<open>None\<close> where the loop says \<open>continue\<close>.
\<close>

definition suitable :: "service \<Rightarrow> go_method \<Rightarrow> (string \<times> serviceMethod) option" where
  "suitable s m =
     (if mPkgPath m \<noteq> [] then None
      else if length (mIn m) \<noteq> 4 then None
      else if \<not> isPtr (mIn m ! 1) \<or> Elem (mIn m ! 1) \<noteq> typeOfRequest then None
      else if \<not> isPtr (mIn m ! 2) \<or> \<not> isExportedOrBuiltin (mIn m ! 2) then None
      else if \<not> isPtr (mIn m ! 3) \<or> \<not> isExportedOrBuiltin (mIn m ! 3) then None
      else if length (mOut m) \<noteq> 1 then None
      else if mOut m ! 0 \<noteq> typeOfError then None
      else case toLowerCase (mName m) of
             Inl err \<Rightarrow> None
           | Inr methodName \<Rightarrow>
               Some (svc_name s @ ''/'' @ methodName,
                     \<lparr>sm_service = Some s, sm_method = m,
                      sm_argsType = Elem (mIn m ! 2), sm_replyType = Elem (mIn m ! 3)\<rparr>))"

text \<open>
  The loop over the method set fills a local Go map, here an association list in which
  a later entry of the same key replaces the earlier one.
\<close>

fun setupMethods :: "service \<Rightarrow> go_method list \<Rightarrow> (string \<times> serviceMethod) list
    \<Rightarrow> (string \<times> serviceMethod) list" where
  "setupMethods s [] acc = acc"
| "setupMethods s (m # ms) acc =
     (case suitable s m of
        None \<Rightarrow> setupMethods s ms acc
      | Some (k, d) \<Rightarrow> setupMethods s ms (AList.update k d acc))"

text \<open>
  Everything \<open>register\<close> does before it takes the lock: the error it returns there, or
  the local map of the service's methods.
\<close>

definition serviceMethods :: "receiver \<Rightarrow> string \<Rightarrow> goerror + (string \<times> serviceMethod) list" where
  "serviceMethods rcvr name =
     (case setupService rcvr name of
        Inl err \<Rightarrow> Inl err
      | Inr s \<Rightarrow>
          (let ms = setupMethods s (rcvrMethods rcvr) []
           in if length ms = 0
              then Inl (PlainError (''rpc: '' @ fmt_q (svc_name s) @
                          '' has no exported methods of suitable type''))
              else Inr ms))"

definition alreadyDefined :: "string \<Rightarrow> goerror" where
  "alreadyDefined name = PlainError (''rpc: service method already defined: '' @ fmt_q name)"

text \<open>
  The loop that adds the local map to the registry (lines 127 to 133), over the entries
  in the order the \<open>range\<close> statement visits them.
\<close>

fun addToMap :: "(string \<times> serviceMethod) list \<Rightarrow> serviceMap \<Rightarrow> goerror option \<times> serviceMap" where
  "addToMap [] m = (None, m)"
| "addToMap ((name, method) # rest) m =
     (case methods m name of
        Some old \<Rightarrow> (Some (alreadyDefined name), m)
      | None \<Rightarrow> addToMap rest (m\<lparr>methods := (methods m)(name \<mapsto> method)\<rparr>))"

text \<open>
  \<open>register\<close>. Go leaves the order in which \<open>range\<close> visits a map open; \<open>ord\<close> is that
  order, a rearrangement of the entries chosen by the runtime.
\<close>

definition register :: "((string \<times> serviceMethod) list \<Rightarrow> (string \<times> serviceMethod) list)
    \<Rightarrow> serviceMap \<Rightarrow> receiver \<Rightarrow> string \<Rightarrow> goerror option \<times> serviceMap" where
  "register ord m rcvr name =
     (case serviceMethods rcvr name of
        Inl err \<Rightarrow> (Some err, m)
      | Inr ms \<Rightarrow> addToMap (ord ms) m)"

definition registerAlias :: "serviceMap \<Rightarrow> string \<Rightarrow> string \<Rightarrow> goerror option \<times> serviceMap" where
  "registerAlias m alias target =
     (case methods m target of
        None \<Rightarrow> (Some (PlainError (''rpc: service method '' @ target @ '' for alias not found'')), m)
      | Some t \<Rightarrow>
          (case aliases m alias of
             Some a \<Rightarrow> (Some (PlainError (''rpc: service method alias '' @ alias @ '' already defined'')), m)
           | None \<Rightarrow> (None, m\<lparr>aliases := (aliases m)(alias \<mapsto> target)\<rparr>)))"

definition get :: "serviceMap \<Rightarrow> string \<Rightarrow> goerror + (service \<times> serviceMethod)" where
  "get m method0 =
     (let method = (case aliases m method0 of Some target \<Rightarrow> target | None \<Rightarrow> method0)
      in case methods m method of
           None \<Rightarrow> Inl (PlainError (''rpc: can't find service method '' @ fmt_q method))
         | Some serviceMethod \<Rightarrow>
             (case sm_service serviceMethod of
                None \<Rightarrow> Inl (PlainError (''rpc: can't find service '' @ fmt_q method))
              | Some service \<Rightarrow> Inr (service, serviceMethod)))"

definition emptyServiceMap :: serviceMap where
  "emptyServiceMap = \<lparr>methods = Map.empty, aliases = Map.empty\<rparr>"

section \<open>Response writers and encoders (writer.go, compression_selector.go)\<close>

text \<open>
  The response envelope \<open>ServerResponse\<close>: \<open>result\<close> and \<open>error\<close> are left out of the
  JSON text when they are nil (\<open>omitempty\<close>).
\<close>

record ServerResponse =
  resVersion :: string
  resResult :: "gval option"
  resError :: "Error option"
  resId :: "string option"

datatype Encoder = DefaultEncoder | gzipEncoder | flateEncoder

text \<open>
  What has been written to a response: plain text, or the JSON text of an envelope,
  written by \<open>json.Encoder\<close> to the writer that the encoder returned.
\<close>

datatype chunk = Text string | Json Encoder ServerResponse

text \<open>
  An \<open>http.ResponseWriter\<close>: the header map (keys in canonical form), the status
  (\<open>0\<close> until one is written; the first write without one makes it 200), and what was
  written.
\<close>

record ResponseWriter =
  header :: "string \<rightharpoonup> string"
  status :: nat
  body :: "chunk list"

definition newResponseWriter :: ResponseWriter where
  "newResponseWriter = \<lparr>header = Map.empty, status = 0, body = []\<rparr>"

definition setHeader :: "string \<Rightarrow> string \<Rightarrow> ResponseWriter \<Rightarrow> ResponseWriter" where
  "setHeader k v w = w\<lparr>header := (header w)(k \<mapsto> v)\<rparr>"

definition WriteHeader :: "nat \<Rightarrow> ResponseWriter \<Rightarrow> ResponseWriter" where
  "WriteHeader st w = (if status w = 0 then w\<lparr>status := st\<rparr> else w)"

definition Write :: "chunk \<Rightarrow> ResponseWriter \<Rightarrow> ResponseWriter" where
  "Write c w = (WriteHeader 200 w)\<lparr>body := body w @ [c]\<rparr>"

text \<open>\<open>WriteError\<close> of writer.go.\<close>

definition WriteError :: "ResponseWriter \<Rightarrow> nat \<Rightarrow> string \<Rightarrow> ResponseWriter" where
  "WriteError w st msg =
     Write (Text msg) (WriteHeader st (setHeader ''Content-Type'' ''text/plain; charset=utf-8'' w))"

text \<open>
  Modelled from the spec: \<open>DefaultEncoder\<close> is declared in a file that is not among the
  sources; the spec calls it the identity, or passthrough, encoder.
\<close>

definition encodeDefault :: "ResponseWriter \<Rightarrow> ResponseWriter" where
  "encodeDefault w = w"

text \<open>\<open>Encode\<close> of an encoder prepares the response for the writer it returns.\<close>

fun Encode :: "Encoder \<Rightarrow> ResponseWriter \<Rightarrow> ResponseWriter" where
  "Encode gzipEncoder w = setHeader ''Content-Encoding'' ''gzip'' w"
| "Encode flateEncoder w = setHeader ''Content-Encoding'' ''deflate'' w"
| "Encode DefaultEncoder w = encodeDefault w"

text \<open>\<open>strings.FieldsFunc\<close>: the maximal runs of bytes that are not separators.\<close>

fun FieldsFunc :: "(char \<Rightarrow> bool) \<Rightarrow> string \<Rightarrow> string \<Rightarrow> string list" where
  "FieldsFunc f [] cur = (if cur = [] then [] else [cur])"
| "FieldsFunc f (c # cs) cur =
     (if f c then (if cur = [] then FieldsFunc f cs [] else cur # FieldsFunc f cs [])
      else FieldsFunc f cs (cur @ [c]))"

text \<open>The separator of \<open>acceptedEnc\<close>: ASCII white space, or a comma.\<close>

definition isSpaceOrComma :: "char \<Rightarrow> bool" where
  "isSpaceOrComma c =
     ((9 \<le> (of_char c :: nat) \<and> (of_char c :: nat) \<le> 13) \<or> (of_char c :: nat) = 32
      \<or> (of_char c :: nat) = 44)"

fun firstCompression :: "string list \<Rightarrow> string" where
  "firstCompression [] = []"
| "firstCompression (enc # rest) =
     (if enc = ''gzip'' \<or> enc = ''deflate'' then enc else firstCompression rest)"

text \<open>\<open>Header.Get\<close>: the empty string for a header that is not set.\<close>

definition headerGet :: "httpreq \<Rightarrow> string \<Rightarrow> string" where
  "headerGet r k = (case reqHeader r k of None \<Rightarrow> [] | Some v \<Rightarrow> v)"

definition acceptedEnc :: "httpreq \<Rightarrow> string" where
  "acceptedEnc req =
     (let encHeader = headerGet req ''Accept-Encoding''
      in if encHeader = [] then []
         else firstCompression (FieldsFunc isSpaceOrComma encHeader []))"

text \<open>\<open>CompressionSelector.Select\<close>.\<close>

definition Select :: "httpreq \<Rightarrow> Encoder" where
  "Select r =
     (if acceptedEnc r = ''gzip'' then gzipEncoder
      else if acceptedEnc r = ''flate'' then flateEncoder
      else DefaultEncoder)"

section \<open>The JSON-RPC 2.0 codec\<close>

text \<open>
  The package \<open>encoding/json\<close> is not part of the repository. The codec is given its
  two decoding functions: \<open>Decode\<close> is \<open>json.NewDecoder(r.Body).Decode(req)\<close>, from the
  body to the text of the error, if any, and the envelope as far as it was filled;
  \<open>Unmarshal\<close> is \<open>json.Unmarshal(params, args)\<close>, from the raw parameters and the
  argument buffer to the text of the error, if any, and the buffer afterwards.
\<close>

record jsonlib =
  Decode :: "string \<Rightarrow> string option \<times> ServerRequest"
  Unmarshal :: "string \<Rightarrow> gval \<Rightarrow> string option \<times> gval"

text \<open>Marshalling fails on a value of an unsupported kind, wherever it occurs.\<close>

fun marshalable :: "gval \<Rightarrow> bool" where
  "marshalable VChan = False"
| "marshalable (VStruct fs) = list_all marshalable (map snd fs)"
| "marshalable v = True"

fun dataMarshalable :: "errdata \<Rightarrow> bool" where
  "dataMarshalable (DUser v) = marshalable v"
| "dataMarshalable d = True"

text \<open>\<open>encoder.Encode(res)\<close>: the text of the error it returns, if any.\<close>

definition encodeError :: "ServerResponse \<Rightarrow> string option" where
  "encodeError res =
     (if (case resResult res of None \<Rightarrow> True | Some v \<Rightarrow> marshalable v)
         \<and> (case resError res of None \<Rightarrow> True | Some e \<Rightarrow> dataMarshalable (Data e))
      then None else Some ''json: unsupported type'')"

record CodecRequest =
  Request :: ServerRequest
  Err :: "goerror option"
  encoder :: Encoder

definition newCodecRequest :: "jsonlib \<Rightarrow> httpreq \<Rightarrow> Encoder \<Rightarrow> CodecRequest" where
  "newCodecRequest lib r enc =
     (let (derr, req) = Decode lib (reqBody r);
          err = (case derr of
                   None \<Rightarrow> None
                 | Some text \<Rightarrow> Some (JsonError \<lparr>Code = E_PARSE, Message = text, Data = DReq req\<rparr>));
          err2 = (if Version req \<noteq> ''2.0''
                  then Some (JsonError \<lparr>Code = E_INVALID_REQ,
                                        Message = ''jsonrpc must be '' @ ''2.0'', Data = DReq req\<rparr>)
                  else err)
      in \<lparr>Request = req, Err = err2, encoder = enc\<rparr>)"

definition CodecRequest_Method :: "CodecRequest \<Rightarrow> string \<times> goerror option" where
  "CodecRequest_Method c = (if Err c = None then (Method (Request c), None) else ([], Err c))"

definition CodecRequest_ReadRequest :: "jsonlib \<Rightarrow> CodecRequest \<Rightarrow> gval
    \<Rightarrow> CodecRequest \<times> gval \<times> goerror option" where
  "CodecRequest_ReadRequest lib c args =
     (case (Err c, Params (Request c)) of
        (None, Some params) \<Rightarrow>
          (case Unmarshal lib params args of
             (None, args2) \<Rightarrow> (c, args2, None)
           | (Some text, args2) \<Rightarrow>
               (let e = JsonError \<lparr>Code = E_INVALID_REQ, Message = text,
                                   Data = DParams (Params (Request c))\<rparr>
                in (c\<lparr>Err := Some e\<rparr>, args2, Some e)))
      | other \<Rightarrow> (c, args, Err c))"

definition writeServerResponse :: "CodecRequest \<Rightarrow> ResponseWriter \<Rightarrow> ServerResponse
    \<Rightarrow> ResponseWriter" where
  "writeServerResponse c w res =
     (case Id (Request c) of
        None \<Rightarrow> w
      | Some i \<Rightarrow>
          (let w1 = Encode (encoder c)
                      (setHeader ''Content-Type'' ''application/json; charset=utf-8'' w)
           in case encodeError res of
                None \<Rightarrow> Write (Json (encoder c) res) w1
              | Some text \<Rightarrow> WriteError w1 400 text))"

definition CodecRequest_WriteResponse :: "CodecRequest \<Rightarrow> ResponseWriter \<Rightarrow> gval
    \<Rightarrow> ResponseWriter" where
  "CodecRequest_WriteResponse c w reply =
     writeServerResponse c w
       \<lparr>resVersion = ''2.0'', resResult = Some reply, resError = None, resId = Id (Request c)\<rparr>"

definition wrapError :: "goerror \<Rightarrow> Error" where
  "wrapError err =
     (case err of
        JsonError jsonErr \<Rightarrow> jsonErr
      | PlainError text \<Rightarrow> \<lparr>Code = E_SERVER, Message = errorText err, Data = DNil\<rparr>)"

definition CodecRequest_WriteError :: "CodecRequest \<Rightarrow> ResponseWriter \<Rightarrow> nat \<Rightarrow> goerror
    \<Rightarrow> ResponseWriter" where
  "CodecRequest_WriteError c w st err =
     writeServerResponse c w
       \<lparr>resVersion = ''2.0'', resResult = None, resError = Some (wrapError err),
        resId = Id (Request c)\<rparr>"

section \<open>The dispatch pipeline (server.go)\<close>

text \<open>
  The \<open>Codec\<close> and \<open>CodecRequest\<close> interfaces: \<open>'c\<close> is the state of a codec request,
  \<open>cReadRequest\<close> gives that state and the argument buffer back as the call leaves them.
\<close>

record 'c Codec =
  NewRequest :: "httpreq \<Rightarrow> 'c"
  cMethod :: "'c \<Rightarrow> string \<times> goerror option"
  cReadRequest :: "'c \<Rightarrow> gval \<Rightarrow> 'c \<times> gval \<times> goerror option"
  cWriteResponse :: "'c \<Rightarrow> ResponseWriter \<Rightarrow> gval \<Rightarrow> ResponseWriter"
  cWriteError :: "'c \<Rightarrow> ResponseWriter \<Rightarrow> nat \<Rightarrow> goerror \<Rightarrow> ResponseWriter"

text \<open>The JSON-RPC 2.0 codec with its encoder selector, as a \<open>Codec\<close>.\<close>

definition json2Codec :: "jsonlib \<Rightarrow> (httpreq \<Rightarrow> Encoder) \<Rightarrow> CodecRequest Codec" where
  "json2Codec lib encSel =
     \<lparr>NewRequest = (\<lambda>r. newCodecRequest lib r (encSel r)),
      cMethod = CodecRequest_Method,
      cReadRequest = CodecRequest_ReadRequest lib,
      cWriteResponse = CodecRequest_WriteResponse,
      cWriteError = CodecRequest_WriteError\<rparr>"

record RequestInfo =
  riMethod :: string
  riError :: "goerror option"
  riRequest :: httpreq
  riStatusCode :: nat

text \<open>
  The server. A hook that is not registered is \<open>None\<close>. The before hook gets the bundle
  and may change the request it points to: it gives back that request and the bundle.
  The validate hook gets the bundle and the decoded arguments and gives back its error
  and the arguments as it leaves them.
\<close>

record 'c Server =
  codecs :: "(string \<times> 'c Codec) list"
  services :: serviceMap
  interceptFunc :: "(RequestInfo \<Rightarrow> httpreq option) option"
  beforeFunc :: "(RequestInfo \<Rightarrow> httpreq \<times> RequestInfo) option"
  afterFunc :: "(RequestInfo \<Rightarrow> unit) option"
  validateFunc :: "(RequestInfo \<Rightarrow> gval \<Rightarrow> goerror option \<times> gval) option"

definition NewServer :: "'c Server" where
  "NewServer = \<lparr>codecs = [], services = emptyServiceMap, interceptFunc = None,
                beforeFunc = None, afterFunc = None, validateFunc = None\<rparr>"

definition RegisterCodec :: "'c Server \<Rightarrow> 'c Codec \<Rightarrow> string \<Rightarrow> 'c Server" where
  "RegisterCodec s codec contentType =
     s\<lparr>codecs := AList.update (ToLower contentType) codec (codecs s)\<rparr>"

definition RegisterValidateRequestFunc ::
    "'c Server \<Rightarrow> (RequestInfo \<Rightarrow> gval \<Rightarrow> goerror option \<times> gval) \<Rightarrow> 'c Server" where
  "RegisterValidateRequestFunc s f = s\<lparr>validateFunc := Some f\<rparr>"

definition RegisterService :: "((string \<times> serviceMethod) list \<Rightarrow> (string \<times> serviceMethod) list)
    \<Rightarrow> 'c Server \<Rightarrow> receiver \<Rightarrow> string \<Rightarrow> goerror option \<times> 'c Server" where
  "RegisterService ord s rcvr name =
     (case register ord (services s) rcvr name of (err, m) \<Rightarrow> (err, s\<lparr>services := m\<rparr>))"

definition HasMethod :: "'c Server \<Rightarrow> string \<Rightarrow> bool" where
  "HasMethod s method = (case get (services s) method of Inl err \<Rightarrow> False | Inr found \<Rightarrow> True)"

text \<open>
  What one call of \<open>ServeHTTP\<close> leaves behind: the response, the calls it made to the
  hooks and to the service method, in order, and the reply buffer once it is allocated.
\<close>

datatype event =
  Intercept RequestInfo
| Before RequestInfo
| Validate RequestInfo gval
| Invoke string gval
| After RequestInfo

record outcome =
  resp :: ResponseWriter
  trace :: "event list"
  replyBuf :: "gval option"

definition rejected :: "ResponseWriter \<Rightarrow> outcome" where
  "rejected w = \<lparr>resp = w, trace = [], replyBuf = None\<rparr>"

text \<open>The content type without its parameters (lines 155 to 159).\<close>

definition stripParams :: "string \<Rightarrow> string" where
  "stripParams contentType = takeWhile (\<lambda>c. c \<noteq> CHR '';'') contentType"

text \<open>The choice of the codec (lines 160 to 170); \<open>None\<close> where the code answers 415.\<close>

definition selectCodec :: "'c Server \<Rightarrow> string \<Rightarrow> 'c Codec option" where
  "selectCodec s contentType =
     (if contentType = [] \<and> length (codecs s) = 1
      then (case codecs s of [] \<Rightarrow> None | (k, c) # rest \<Rightarrow> Some c)
      else map_of (codecs s) (ToLower contentType))"

text \<open>The intercept hook (lines 192 to 200).\<close>

definition runIntercept :: "'c Server \<Rightarrow> string \<Rightarrow> httpreq \<Rightarrow> httpreq \<times> event list" where
  "runIntercept s method r =
     (case interceptFunc s of
        None \<Rightarrow> (r, [])
      | Some f \<Rightarrow>
          (let i = \<lparr>riMethod = method, riError = None, riRequest = r, riStatusCode = 0\<rparr>
           in case f i of None \<Rightarrow> (r, [Intercept i]) | Some req \<Rightarrow> (req, [Intercept i])))"

text \<open>The before hook (lines 202 to 210).\<close>

definition runBefore :: "'c Server \<Rightarrow> string \<Rightarrow> httpreq \<Rightarrow> httpreq \<times> RequestInfo \<times> event list" where
  "runBefore s method r =
     (let requestInfo = \<lparr>riMethod = method, riError = None, riRequest = r, riStatusCode = 0\<rparr>
      in case beforeFunc s of
           None \<Rightarrow> (r, requestInfo, [])
         | Some f \<Rightarrow> (case f requestInfo of (r2, i2) \<Rightarrow> (r2, i2, [Before requestInfo])))"

text \<open>
  The validate hook and the call of the method (lines 212 to 229): the reply buffer,
  the error value and the calls made.
\<close>

definition callMethod :: "'c Server \<Rightarrow> service \<Rightarrow> serviceMethod \<Rightarrow> string \<Rightarrow> RequestInfo
    \<Rightarrow> httpreq \<Rightarrow> gval \<Rightarrow> gval \<times> goerror option \<times> event list" where
  "callMethod s serviceSpec methodSpec method requestInfo r args =
     (let reply = zeroOf (sm_replyType methodSpec);
          (errValue, args2, ev) =
             (case validateFunc s of
                None \<Rightarrow> (None, args, [])
              | Some f \<Rightarrow> (case f requestInfo args of (e, a) \<Rightarrow> (e, a, [Validate requestInfo args])))
      in case errValue of
           None \<Rightarrow>
             (case mFunc (sm_method methodSpec) (svc_rcvr serviceSpec) r args2 reply of
                (reply2, e) \<Rightarrow> (reply2, e, ev @ [Invoke method args2]))
         | Some e \<Rightarrow> (reply, Some e, ev))"

text \<open>The after hook (lines 251 to 259).\<close>

definition runAfter :: "'c Server \<Rightarrow> string \<Rightarrow> httpreq \<Rightarrow> goerror option \<Rightarrow> nat \<Rightarrow> event list" where
  "runAfter s method r errResult statusCode =
     (case afterFunc s of
        None \<Rightarrow> []
      | Some f \<Rightarrow> [After \<lparr>riMethod = method, riError = errResult, riRequest = r,
                          riStatusCode = statusCode\<rparr>])"

text \<open>\<open>ServeHTTP\<close> once the codec is chosen (lines 171 to 259).\<close>

definition serveCodec :: "'c Server \<Rightarrow> 'c Codec \<Rightarrow> ResponseWriter \<Rightarrow> httpreq \<Rightarrow> outcome" where
  "serveCodec s codec w r =
     (let codecReq = NewRequest codec r
      in case cMethod codec codecReq of
           (method, Some errMethod) \<Rightarrow> rejected (cWriteError codec codecReq w 400 errMethod)
         | (method, None) \<Rightarrow>
             (case get (services s) method of
                Inl errGet \<Rightarrow> rejected (cWriteError codec codecReq w 400 errGet)
              | Inr (serviceSpec, methodSpec) \<Rightarrow>
                  (case cReadRequest codec codecReq (zeroOf (sm_argsType methodSpec)) of
                     (codecReq2, args, Some errRead) \<Rightarrow>
                       rejected (cWriteError codec codecReq2 w 400 errRead)
                   | (codecReq2, args, None) \<Rightarrow>
                       (case runIntercept s method r of (r1, ev1) \<Rightarrow>
                        case runBefore s method r1 of (r2, requestInfo, ev2) \<Rightarrow>
                        case callMethod s serviceSpec methodSpec method requestInfo r2 args of
                          (reply, errResult, ev3) \<Rightarrow>
                        (let statusCode = (if errResult = None then 200 else 400);
                             w1 = setHeader ''X-Content-Type-Options'' ''nosniff'' w;
                             w2 = (case errResult of
                                     None \<Rightarrow> cWriteResponse codec codecReq2 w1 reply
                                   | Some e \<Rightarrow> cWriteError codec codecReq2 w1 statusCode e)
                         in \<lparr>resp = w2,
                             trace = ev1 @ ev2 @ ev3 @ runAfter s method r2 errResult statusCode,
                             replyBuf = Some reply\<rparr>)))))"

definition ServeHTTP :: "'c Server \<Rightarrow> ResponseWriter \<Rightarrow> httpreq \<Rightarrow> outcome" where
  "ServeHTTP s w r =
     (if reqMethod r \<noteq> ''POST''
      then rejected (WriteError w 405 (''rpc: POST method required, received '' @ reqMethod r))
      else let contentType = stripParams (headerGet r ''Content-Type'')
           in case selectCodec s contentType of
                None \<Rightarrow> rejected (WriteError w 415 (''rpc: unrecognized Content-Type: '' @ contentType))
              | Some codec \<Rightarrow> serveCodec s codec w r)"

section \<open>The services and requests of the tests\<close>

text \<open>
  \<open>Service1\<close> of json\_test.go, with its methods \<open>Multiply\<close> and \<open>ResponseError\<close>.
\<close>

definition Service1Request :: gotype where
  "Service1Request = Named ''github.com/gorilla/rpc/v2/json'' ''Service1Request''
                       (VStruct [(''A'', VInt 0), (''B'', VInt 0)])"

definition Service1Response :: gotype where
  "Service1Response = Named ''github.com/gorilla/rpc/v2/json'' ''Service1Response''
                        (VStruct [(''Result'', VInt 0)])"

definition Service1Type :: gotype where
  "Service1Type = Named ''github.com/gorilla/rpc/v2/json'' ''Service1'' (VStruct [])"

fun Multiply :: "gval \<Rightarrow> httpreq \<Rightarrow> gval \<Rightarrow> gval \<Rightarrow> gval \<times> goerror option" where
  "Multiply t r (VStruct [(a, VInt x), (b, VInt y)]) res = (VStruct [(''Result'', VInt (x * y))], None)"
| "Multiply t r req res = (res, None)"

definition ErrResponseError :: goerror where
  "ErrResponseError = PlainError ''response error''"

definition ResponseError :: "gval \<Rightarrow> httpreq \<Rightarrow> gval \<Rightarrow> gval \<Rightarrow> gval \<times> goerror option" where
  "ResponseError t r req res = (res, Some ErrResponseError)"

definition handlerIn :: "gotype list" where
  "handlerIn = [Ptr Service1Type, Ptr typeOfRequest, Ptr Service1Request, Ptr Service1Response]"

definition MultiplyMethod :: go_method where
  "MultiplyMethod = \<lparr>mName = ''Multiply'', mPkgPath = [], mIn = handlerIn, mOut = [typeOfError],
                      mFunc = Multiply\<rparr>"

definition ResponseErrorMethod :: go_method where
  "ResponseErrorMethod = \<lparr>mName = ''ResponseError'', mPkgPath = [], mIn = handlerIn,
                           mOut = [typeOfError], mFunc = ResponseError\<rparr>"

definition Service1 :: receiver where
  "Service1 =
     \<lparr>rcvrValue = VStruct [], rcvrTypeName = ''Service1'', rcvrTypeString = ''*json.Service1'',
      rcvrMethods = [MultiplyMethod, ResponseErrorMethod]\<rparr>"

text \<open>The service and the descriptors that \<open>register\<close> makes of \<open>Service1\<close>.\<close>

definition service1 :: service where
  "service1 = \<lparr>svc_name = ''Service1'', svc_rcvr = VStruct [], svc_rcvrType = ''*json.Service1''\<rparr>"

definition multiplySpec :: serviceMethod where
  "multiplySpec = \<lparr>sm_service = Some service1, sm_method = MultiplyMethod,
                    sm_argsType = Service1Request, sm_replyType = Service1Response\<rparr>"

definition responseErrorSpec :: serviceMethod where
  "responseErrorSpec = \<lparr>sm_service = Some service1, sm_method = ResponseErrorMethod,
                         sm_argsType = Service1Request, sm_replyType = Service1Response\<rparr>"

text \<open>
  A service whose method fails with a structured error that carries a channel as data.
\<close>

definition ErrWithChannel :: goerror where
  "ErrWithChannel = JsonError \<lparr>Code = E_SERVER, Message = ''busy'', Data = DUser VChan\<rparr>"

definition Busy :: "gval \<Rightarrow> httpreq \<Rightarrow> gval \<Rightarrow> gval \<Rightarrow> gval \<times> goerror option" where
  "Busy t r req res = (res, Some ErrWithChannel)"

definition BusyMethod :: go_method where
  "BusyMethod = \<lparr>mName = ''Busy'', mPkgPath = [], mIn = handlerIn, mOut = [typeOfError],
                  mFunc = Busy\<rparr>"

definition Service3 :: receiver where
  "Service3 =
     \<lparr>rcvrValue = VStruct [], rcvrTypeName = ''Service3'', rcvrTypeString = ''*json.Service3'',
      rcvrMethods = [BusyMethod]\<rparr>"


text \<open>The order in which the method set was scanned, as one order \<open>range\<close> may take.\<close>

definition scanOrder :: "(string \<times> serviceMethod) list \<Rightarrow> (string \<times> serviceMethod) list" where
  "scanOrder ms = ms"

text \<open>The request bodies of the examples.\<close>

definition multiplyBody :: string where
  \<open>multiplyBody = ''{"jsonrpc":"2.0","method":"Service1.Multiply","params":{"A":4,"B":2},"id":1}''\<close>

definition multiplyKeyBody :: string where
  \<open>multiplyKeyBody = ''{"jsonrpc":"2.0","method":"Service1/multiply","params":{"A":4,"B":2},"id":1}''\<close>

definition multiplyNotifyBody :: string where
  \<open>multiplyNotifyBody = ''{"jsonrpc":"2.0","method":"Service1/multiply","params":{"A":4,"B":2}}''\<close>

definition errorBody :: string where
  \<open>errorBody = ''{"jsonrpc":"2.0","method":"Service1/responseError","id":7}''\<close>

definition errorNotifyBody :: string where
  \<open>errorNotifyBody = ''{"jsonrpc":"2.0","method":"Service1/responseError","id":null}''\<close>

definition busyBody :: string where
  \<open>busyBody = ''{"jsonrpc":"2.0","method":"Service3/busy","id":1}''\<close>

definition numberMethodBody :: string where
  \<open>numberMethodBody = ''{"jsonrpc":"2.0","method":1,"id":1}''\<close>

definition badParamsBody :: string where
  \<open>badParamsBody = ''{"jsonrpc":"2.0","method":"Service1/multiply","params":"x","id":1}''\<close>

definition brokenBody :: string where
  \<open>brokenBody = ''{"jsonrpc":''\<close>

definition envelope :: "string \<Rightarrow> string option \<Rightarrow> string option \<Rightarrow> ServerRequest" where
  "envelope m p i = \<lparr>Version = ''2.0'', Method = m, Params = p, Id = i\<rparr>"

definition zeroRequest :: ServerRequest where
  "zeroRequest = \<lparr>Version = [], Method = [], Params = None, Id = None\<rparr>"

text \<open>
  What \<open>encoding/json\<close> does on these bodies. A syntax error leaves the envelope as it
  was allocated; a value of the wrong type for one member is reported after the other
  members have been stored; \<open>null\<close> and an absent member leave a pointer nil.
\<close>

definition sampleDecode :: "string \<Rightarrow> string option \<times> ServerRequest" where
  \<open>sampleDecode b =
     (if b = multiplyBody
      then (None, envelope ''Service1.Multiply'' (Some ''{"A":4,"B":2}'') (Some ''1''))
      else if b = multiplyKeyBody
      then (None, envelope ''Service1/multiply'' (Some ''{"A":4,"B":2}'') (Some ''1''))
      else if b = multiplyNotifyBody
      then (None, envelope ''Service1/multiply'' (Some ''{"A":4,"B":2}'') None)
      else if b = errorBody
      then (None, envelope ''Service1/responseError'' None (Some ''7''))
      else if b = errorNotifyBody
      then (None, envelope ''Service1/responseError'' None None)
      else if b = busyBody
      then (None, envelope ''Service3/busy'' None (Some ''1''))
      else if b = badParamsBody
      then (None, envelope ''Service1/multiply'' (Some ''"x"'') (Some ''1''))
      else if b = numberMethodBody
      then (Some ''json: cannot unmarshal number into Go struct field ServerRequest.method of type string'',
            envelope [] None (Some ''1''))
      else (Some ''unexpected EOF'', zeroRequest))\<close>

definition sampleUnmarshal :: "string \<Rightarrow> gval \<Rightarrow> string option \<times> gval" where
  \<open>sampleUnmarshal p buf =
     (if p = ''{"A":4,"B":2}'' \<and> buf = VStruct [(''A'', VInt 0), (''B'', VInt 0)]
      then (None, VStruct [(''A'', VInt 4), (''B'', VInt 2)])
      else (Some ''json: cannot unmarshal string into Go value of type json.Service1Request'', buf))\<close>

definition sampleJSON :: jsonlib where
  "sampleJSON = \<lparr>Decode = sampleDecode, Unmarshal = sampleUnmarshal\<rparr>"

definition post :: "string \<Rightarrow> httpreq" where
  "post b = \<lparr>reqMethod = ''POST'', reqHeader = [''Content-Type'' \<mapsto> ''application/json''],
             reqBody = b\<rparr>"

text \<open>
  The server of \<open>TestService\<close>: the codec under \<open>application/json\<close>, with the
  compression selector as its encoder selector, then \<open>Service1\<close> under its inferred
  name.
\<close>

definition testServer :: "CodecRequest Server" where
  "testServer =
     snd (RegisterService scanOrder
            (RegisterCodec NewServer (json2Codec sampleJSON Select) ''application/json'')
            Service1 [])"

text \<open>The server of \<open>TestService\<close> with \<open>Service3\<close> registered as well.\<close>

definition busyServer :: "CodecRequest Server" where
  "busyServer = snd (RegisterService scanOrder testServer Service3 [])"

text \<open>The validate hook of \<open>TestValidationFails\<close>.\<close>

definition onlyZeroValues :: "RequestInfo \<Rightarrow> gval \<Rightarrow> goerror option \<times> gval" where
  "onlyZeroValues info v =
     (if v \<noteq> VStruct [(''A'', VInt 0), (''B'', VInt 0)]
      then (Some (PlainError ''this instance only supports zero values''), v)
      else (None, v))"

definition validatingServer :: "CodecRequest Server" where
  "validatingServer = RegisterValidateRequestFunc testServer onlyZeroValues"

text \<open>A request of another HTTP method, one with a content type, one that accepts an encoding.\<close>

definition getRequest :: httpreq where
  "getRequest = \<lparr>reqMethod = ''GET'', reqHeader = [''Content-Type'' \<mapsto> ''application/json''],
                 reqBody = multiplyKeyBody\<rparr>"

definition postAs :: "string \<Rightarrow> string \<Rightarrow> httpreq" where
  "postAs contentType b = \<lparr>reqMethod = ''POST'', reqHeader = [''Content-Type'' \<mapsto> contentType],
                            reqBody = b\<rparr>"

definition postPlain :: "string \<Rightarrow> httpreq" where
  "postPlain b = \<lparr>reqMethod = ''POST'', reqHeader = Map.empty, reqBody = b\<rparr>"

definition accepting :: "string \<Rightarrow> httpreq" where
  "accepting enc = \<lparr>reqMethod = ''POST'', reqHeader = [''Accept-Encoding'' \<mapsto> enc], reqBody = []\<rparr>"

text \<open>The registry after \<open>Service1\<close> is registered under its inferred name.\<close>

definition service1Map :: serviceMap where
  "service1Map = snd (register scanOrder emptyServiceMap Service1 [])"

text \<open>
  That registry once the key of \<open>Multiply\<close> is also registered as an alias, of
  \<open>ResponseError\<close>.
\<close>

definition shadowedMap :: serviceMap where
  "shadowedMap = snd (registerAlias service1Map ''Service1/multiply'' ''Service1/responseError'')"

text \<open>The name of the method that a lookup found.\<close>

definition foundName :: "goerror + (service \<times> serviceMethod) \<Rightarrow> string option" where
  "foundName res = (case res of Inl err \<Rightarrow> None | Inr (svc, d) \<Rightarrow> Some (mName (sm_method d)))"

text \<open>The calls of the service method among the calls of a request.\<close>

fun isInvoke :: "event \<Rightarrow> bool" where
  "isInvoke (Invoke m a) = True"
| "isInvoke e = False"

section \<open>Evaluation of the samples\<close>

lemma toLowerCase_samples:
  "toLowerCase ''Multiply'' = Inr ''multiply''"
  "toLowerCase ''ResponseError'' = Inr ''responseError''"
  "toLowerCase ''Busy'' = Inr ''busy''"
  by code_simp+

lemma isExported_samples:
  "isExported ''Service1''" "isExported ''Service3''"
  "isExported ''Service1Request''" "isExported ''Service1Response''"
  by code_simp+

lemma ToLower_samples:
  "ToLower ''application/json'' = ''application/json''"
  "ToLower ''Application/JSON'' = ''application/json''"
  "ToLower [] = []"
  by code_simp+

lemmas registry_eval =
  serviceMethods_def setupService_def suitable_def toLowerCase_samples isExported_samples
  isExportedOrBuiltin_def
  typeOfError_def typeOfRequest_def handlerIn_def Service1Request_def Service1Response_def
  Service1Type_def register_def scanOrder_def emptyServiceMap_def alreadyDefined_def fmt_q_def
  MultiplyMethod_def ResponseErrorMethod_def BusyMethod_def service1_def


section \<open>The registry keeps what is registered\<close>






section \<open>Aliases\<close>

text \<open>
  C6, as the code has it. \<open>registerAlias\<close> succeeds exactly when the target is a method
  key and the alias is not yet an alias. After it has succeeded, \<open>get\<close> finds for the
  alias the service and the descriptor stored under the method key \<open>target\<close>: what a
  lookup of \<open>target\<close> finds when no alias is followed. When the target is not itself
  the key of an alias, that is what \<open>get\<close> finds for the target.
\<close>

theorem registerAlias_get:
  "(fst (registerAlias m alias target) = None)
     = (methods m target \<noteq> None \<and> aliases m alias = None)
   \<and> (fst (registerAlias m alias target) = None \<longrightarrow>
        get (snd (registerAlias m alias target)) alias
          = get \<lparr>methods = methods m, aliases = Map.empty\<rparr> target)
   \<and> (fst (registerAlias m alias target) = None \<and> aliases m target = None \<longrightarrow>
        get (snd (registerAlias m alias target)) alias
          = get (snd (registerAlias m alias target)) target)"
  by (cases "methods m target"; cases "aliases m alias")
     (auto simp: registerAlias_def get_def)
theorem registerAlias_get_witness:
  "aliases service1Map ''Service1/multiply'' = None
   \<and> fst (registerAlias service1Map ''mul'' ''Service1/multiply'') = None
   \<and> foundName (get (snd (registerAlias service1Map ''mul'' ''Service1/multiply'')) ''mul'')
       = Some ''Multiply''
   \<and> get (snd (registerAlias service1Map ''mul'' ''Service1/multiply'')) ''mul''
       = get (snd (registerAlias service1Map ''mul'' ''Service1/multiply'')) ''Service1/multiply''"
proof -
  have a: "aliases service1Map ''Service1/multiply'' = None" by code_simp
  have b: "fst (registerAlias service1Map ''mul'' ''Service1/multiply'') = None" by code_simp
  have c: "foundName (get (snd (registerAlias service1Map ''mul'' ''Service1/multiply'')) ''mul'')
       = Some ''Multiply''" by code_simp
  from registerAlias_get [of service1Map "''mul''" "''Service1/multiply''"] a b
  have e: "get (snd (registerAlias service1Map ''mul'' ''Service1/multiply'')) ''mul''
       = get (snd (registerAlias service1Map ''mul'' ''Service1/multiply'')) ''Service1/multiply''"
    by blast
  from a b c e show ?thesis by blast
qed

text \<open>
  C6 as it is stated fails where the target is also the key of an alias: \<open>get\<close> follows
  one alias only, so the new alias leads to the method stored under the target key,
  while a lookup of the target follows the target's own alias to another method.
\<close>

theorem registerAlias_get_counterexample:
  "fst (registerAlias shadowedMap ''mul'' ''Service1/multiply'') = None
   \<and> get (snd (registerAlias shadowedMap ''mul'' ''Service1/multiply'')) ''mul''
       \<noteq> get (snd (registerAlias shadowedMap ''mul'' ''Service1/multiply'')) ''Service1/multiply''"
proof -
  have ok: "fst (registerAlias shadowedMap ''mul'' ''Service1/multiply'') = None" by code_simp
  have a: "foundName (get (snd (registerAlias shadowedMap ''mul'' ''Service1/multiply'')) ''mul'')
             = Some ''Multiply''" by code_simp
  have b: "foundName (get (snd (registerAlias shadowedMap ''mul'' ''Service1/multiply''))
             ''Service1/multiply'') = Some ''ResponseError''" by code_simp
  have "get (snd (registerAlias shadowedMap ''mul'' ''Service1/multiply'')) ''mul''
       \<noteq> get (snd (registerAlias shadowedMap ''mul'' ''Service1/multiply'')) ''Service1/multiply''"
  proof
    assume "get (snd (registerAlias shadowedMap ''mul'' ''Service1/multiply'')) ''mul''
       = get (snd (registerAlias shadowedMap ''mul'' ''Service1/multiply'')) ''Service1/multiply''"
    then have "foundName (get (snd (registerAlias shadowedMap ''mul'' ''Service1/multiply'')) ''mul'')
       = foundName (get (snd (registerAlias shadowedMap ''mul'' ''Service1/multiply'')) ''Service1/multiply'')"
      by simp
    with a b show False by simp
  qed
  with ok show ?thesis by simp
qed

section \<open>The compression selector\<close>

text \<open>
  C9 at the header \<open>Accept-Encoding: deflate\<close>: \<open>acceptedEnc\<close> answers \<open>deflate\<close>, but
  \<open>Select\<close> compares with \<open>flate\<close> and falls through to the default encoder, although
  the flate encoder is the one that announces \<open>deflate\<close>. For \<open>gzip\<close> the gzip encoder
  is selected.
\<close>

theorem Select_deflate:
  "acceptedEnc (accepting ''deflate'') = ''deflate''
   \<and> Select (accepting ''deflate'') = DefaultEncoder
   \<and> Select (accepting ''gzip'') = gzipEncoder
   \<and> header (Encode flateEncoder newResponseWriter) ''Content-Encoding'' = Some ''deflate''"
  by code_simp

section \<open>The JSON-RPC 2.0 codec on requests it cannot decode\<close>




section \<open>The round trip of the tests\<close>

text \<open>
  C1 at its own request. \<open>register\<close> stores \<open>Multiply\<close> under the key
  \<open>Service1/multiply\<close>, and \<open>get\<close> looks the name of the wire up as it is, so
  \<open>Service1.Multiply\<close> is not found: the response is an error envelope, and the method
  is not called. Under the key \<open>Service1/multiply\<close> the same request gives the result 8.
\<close>

theorem Service1_Multiply_not_found:
  "HasMethod testServer ''Service1.Multiply'' = False
   \<and> HasMethod testServer ''Service1/multiply'' = True
   \<and> Method (snd (Decode sampleJSON multiplyBody)) = ''Service1.Multiply''
   \<and> body (resp (ServeHTTP testServer newResponseWriter (post multiplyBody)))
       = [Json DefaultEncoder
            \<lparr>resVersion = ''2.0'', resResult = None,
             resError = Some \<lparr>Code = E_SERVER,
                               Message = ''rpc: can't find service method '' @ fmt_q ''Service1.Multiply'',
                               Data = DNil\<rparr>,
             resId = Some ''1''\<rparr>]
   \<and> replyBuf (ServeHTTP testServer newResponseWriter (post multiplyBody)) = None
   \<and> body (resp (ServeHTTP testServer newResponseWriter (post multiplyKeyBody)))
       = [Json DefaultEncoder
            \<lparr>resVersion = ''2.0'', resResult = Some (VStruct [(''Result'', VInt 8)]),
             resError = None, resId = Some ''1''\<rparr>]"
  by code_simp

section \<open>The pipeline once a request is dispatched\<close>

lemma serveCodec_reached:
  assumes "cMethod codec (NewRequest codec r) = (method, None)"
    and "get (services s) method = Inr (serviceSpec, methodSpec)"
    and "cReadRequest codec (NewRequest codec r) (zeroOf (sm_argsType methodSpec)) = (c2, args, None)"
    and "runIntercept s method r = (r1, ev1)"
    and "runBefore s method r1 = (r2, requestInfo, ev2)"
    and "callMethod s serviceSpec methodSpec method requestInfo r2 args = (reply, errResult, ev3)"
  shows "serveCodec s codec w r =
     \<lparr>resp = (case errResult of
                 None \<Rightarrow> cWriteResponse codec c2 (setHeader ''X-Content-Type-Options'' ''nosniff'' w) reply
               | Some e \<Rightarrow> cWriteError codec c2 (setHeader ''X-Content-Type-Options'' ''nosniff'' w) 400 e),
      trace = ev1 @ ev2 @ ev3 @ runAfter s method r2 errResult (if errResult = None then 200 else 400),
      replyBuf = Some reply\<rparr>"
  using assms by (cases errResult) (simp_all add: serveCodec_def Let_def)

lemma ServeHTTP_selected:
  assumes "reqMethod r = ''POST''"
    and "selectCodec s (stripParams (headerGet r ''Content-Type'')) = Some codec"
  shows "ServeHTTP s w r = serveCodec s codec w r"
  using assms by (simp add: ServeHTTP_def Let_def)

lemma callMethod_rejected:
  assumes "validateFunc s = Some f" and "f requestInfo args = (Some e, args2)"
  shows "callMethod s serviceSpec methodSpec method requestInfo r args
         = (zeroOf (sm_replyType methodSpec), Some e, [Validate requestInfo args])"
  using assms by (simp add: callMethod_def Let_def)

lemma runIntercept_no_invoke: "runIntercept s method r = (r1, ev) \<Longrightarrow> filter isInvoke ev = []"
  by (auto simp: runIntercept_def Let_def split: option.splits)

lemma runBefore_no_invoke: "runBefore s method r = (r2, info, ev) \<Longrightarrow> filter isInvoke ev = []"
  by (auto simp: runBefore_def Let_def split: option.splits prod.splits)

lemma runAfter_no_invoke: "filter isInvoke (runAfter s method r e st) = []"
  by (simp add: runAfter_def split: option.splits)

subsection \<open>The servers of the tests\<close>

lemma testServer_fields:
  "codecs testServer = [(''application/json'', json2Codec sampleJSON Select)]"
  "interceptFunc testServer = None" "beforeFunc testServer = None"
  "afterFunc testServer = None" "validateFunc testServer = None"
  "services testServer = service1Map"
  by (simp_all add: testServer_def RegisterService_def RegisterCodec_def NewServer_def
        ToLower_samples split_beta service1Map_def)

lemma validatingServer_fields:
  "codecs validatingServer = [(''application/json'', json2Codec sampleJSON Select)]"
  "interceptFunc validatingServer = None" "beforeFunc validatingServer = None"
  "afterFunc validatingServer = None" "validateFunc validatingServer = Some onlyZeroValues"
  "services validatingServer = service1Map"
  by (simp_all add: validatingServer_def RegisterValidateRequestFunc_def testServer_fields)

lemma busyServer_fields:
  "codecs busyServer = [(''application/json'', json2Codec sampleJSON Select)]"
  "interceptFunc busyServer = None" "beforeFunc busyServer = None"
  "afterFunc busyServer = None" "validateFunc busyServer = None"
  by (simp_all add: busyServer_def RegisterService_def split_beta testServer_fields)

lemma service1Map_get:
  "get service1Map ''Service1/multiply'' = Inr (service1, multiplySpec)"
  "get service1Map ''Service1/responseError'' = Inr (service1, responseErrorSpec)"
  by (simp_all add: service1Map_def get_def registry_eval Service1_def multiplySpec_def
        responseErrorSpec_def)

lemma post_content_type:
  "reqMethod (post b) = ''POST''"
  "stripParams (headerGet (post b) ''Content-Type'') = ''application/json''"
  by (simp_all add: post_def stripParams_def headerGet_def)

lemma select_json2:
  "selectCodec testServer ''application/json'' = Some (json2Codec sampleJSON Select)"
  "selectCodec validatingServer ''application/json'' = Some (json2Codec sampleJSON Select)"
  "selectCodec busyServer ''application/json'' = Some (json2Codec sampleJSON Select)"
  by (simp_all add: selectCodec_def testServer_fields validatingServer_fields busyServer_fields
        ToLower_samples)

lemma json2Codec_fields:
  "NewRequest (json2Codec lib encSel) r = newCodecRequest lib r (encSel r)"
  "cMethod (json2Codec lib encSel) = CodecRequest_Method"
  "cReadRequest (json2Codec lib encSel) = CodecRequest_ReadRequest lib"
  "cWriteResponse (json2Codec lib encSel) = CodecRequest_WriteResponse"
  "cWriteError (json2Codec lib encSel) = CodecRequest_WriteError"
  by (simp_all add: json2Codec_def)

subsection \<open>The validate hook\<close>

text \<open>
  C7. When a request reaches the validate hook and the hook returns an error, the
  service method is not called: the reply buffer is the zero value of the reply type,
  no call of the method is among the calls made, and the response is what the codec's
  \<open>WriteError\<close> writes for that very error, with the status 400 passed to it.
\<close>

theorem validate_error_skips_method:
  assumes post: "reqMethod r = ''POST''"
    and codec: "selectCodec s (stripParams (headerGet r ''Content-Type'')) = Some codec"
    and m: "cMethod codec (NewRequest codec r) = (method, None)"
    and g: "get (services s) method = Inr (serviceSpec, methodSpec)"
    and rd: "cReadRequest codec (NewRequest codec r) (zeroOf (sm_argsType methodSpec)) = (c2, args, None)"
    and i: "runIntercept s method r = (r1, ev1)"
    and b: "runBefore s method r1 = (r2, requestInfo, ev2)"
    and v: "validateFunc s = Some f" "f requestInfo args = (Some e, args2)"
  shows "resp (ServeHTTP s w r)
           = cWriteError codec c2 (setHeader ''X-Content-Type-Options'' ''nosniff'' w) 400 e
       \<and> replyBuf (ServeHTTP s w r) = Some (zeroOf (sm_replyType methodSpec))
       \<and> filter isInvoke (trace (ServeHTTP s w r)) = []"
proof -
  note call = callMethod_rejected [OF v]
  have "ServeHTTP s w r = serveCodec s codec w r"
    using post codec by (rule ServeHTTP_selected)
  also note serveCodec_reached [OF m g rd i b call]
  finally show ?thesis
    using runIntercept_no_invoke [OF i] runBefore_no_invoke [OF b]
    by (simp add: runAfter_no_invoke)
qed

theorem validate_error_skips_method_witness:
  "reqMethod (post multiplyKeyBody) = ''POST''
   \<and> validateFunc validatingServer = Some onlyZeroValues
   \<and> body (resp (ServeHTTP validatingServer newResponseWriter (post multiplyKeyBody)))
       = [Json DefaultEncoder
            \<lparr>resVersion = ''2.0'', resResult = None,
             resError = Some \<lparr>Code = E_SERVER, Message = ''this instance only supports zero values'',
                               Data = DNil\<rparr>,
             resId = Some ''1''\<rparr>]
   \<and> replyBuf (ServeHTTP validatingServer newResponseWriter (post multiplyKeyBody))
       = Some (VStruct [(''Result'', VInt 0)])
   \<and> filter isInvoke (trace (ServeHTTP validatingServer newResponseWriter (post multiplyKeyBody))) = []"
proof -
  let ?r = "post multiplyKeyBody"
  let ?codec = "json2Codec sampleJSON Select"
  let ?c = "newCodecRequest sampleJSON ?r (Select ?r)"
  let ?args = "VStruct [(''A'', VInt 4), (''B'', VInt 2)]"
  let ?info = "\<lparr>riMethod = ''Service1/multiply'', riError = None, riRequest = ?r, riStatusCode = 0\<rparr>"
  let ?e = "PlainError ''this instance only supports zero values''"
  have sel: "selectCodec validatingServer (stripParams (headerGet ?r ''Content-Type'')) = Some ?codec"
    by (simp add: post_content_type select_json2)
  have m: "cMethod ?codec (NewRequest ?codec ?r) = (''Service1/multiply'', None)"
    unfolding json2Codec_fields by code_simp
  have g: "get (services validatingServer) ''Service1/multiply'' = Inr (service1, multiplySpec)"
    by (simp add: validatingServer_fields service1Map_get)
  have rd: "cReadRequest ?codec (NewRequest ?codec ?r) (zeroOf (sm_argsType multiplySpec))
              = (?c, ?args, None)"
    unfolding json2Codec_fields by code_simp
  have i: "runIntercept validatingServer ''Service1/multiply'' ?r = (?r, [])"
    by (simp add: runIntercept_def validatingServer_fields)
  have b: "runBefore validatingServer ''Service1/multiply'' ?r = (?r, ?info, [])"
    by (simp add: runBefore_def validatingServer_fields)
  have v: "onlyZeroValues ?info ?args = (Some ?e, ?args)"
    by (simp add: onlyZeroValues_def)
  note T = validate_error_skips_method [OF post_content_type(1) sel m g rd i b
              validatingServer_fields(5) v, of newResponseWriter]
  have w: "body (cWriteError ?codec ?c (setHeader ''X-Content-Type-Options'' ''nosniff'' newResponseWriter) 400 ?e)
       = [Json DefaultEncoder
            \<lparr>resVersion = ''2.0'', resResult = None,
             resError = Some \<lparr>Code = E_SERVER, Message = ''this instance only supports zero values'',
                               Data = DNil\<rparr>,
             resId = Some ''1''\<rparr>]"
    unfolding json2Codec_fields by code_simp
  have z: "zeroOf (sm_replyType multiplySpec) = VStruct [(''Result'', VInt 0)]" by code_simp
  from T w z show ?thesis
    by (simp add: post_content_type validatingServer_fields)
qed

section \<open>The choice of the codec\<close>

lemma stripParams_prefix:
  "CHR '';'' \<notin> set (stripParams v) \<and> (v = stripParams v \<or> (\<exists>rest. v = stripParams v @ CHR '';'' # rest))"
proof -
  have a: "CHR '';'' \<notin> set (takeWhile (\<lambda>c. c \<noteq> CHR '';'') v)"
    by (auto dest: set_takeWhileD)
  have b: "v = takeWhile (\<lambda>c. c \<noteq> CHR '';'') v @ dropWhile (\<lambda>c. c \<noteq> CHR '';'') v" by simp
  show ?thesis
  proof (cases "dropWhile (\<lambda>c. c \<noteq> CHR '';'') v")
    case Nil
    with b a show ?thesis by (simp add: stripParams_def)
  next
    case (Cons x rest)
    then have "x = CHR '';''" using hd_dropWhile [of "\<lambda>c. c \<noteq> CHR '';''" v] by auto
    with Cons b a show ?thesis unfolding stripParams_def by metis
  qed
qed

lemma WriteError_fresh:
  "status (WriteError newResponseWriter st msg) = (if st = 0 then 200 else st)"
  "body (WriteError newResponseWriter st msg) = [Text msg]"
  by (simp_all add: WriteError_def Write_def WriteHeader_def setHeader_def newResponseWriter_def)

text \<open>
  C8. For a POST request, \<open>ServeHTTP\<close> takes the content type up to the first \<open>;\<close>.
  When that is empty and one codec is registered, that codec serves the request.
  Otherwise the codec registered under the lower-cased value serves it, and
  \<open>RegisterCodec\<close> stores a codec under its lower-cased content type, so the match
  ignores case. When no codec is found the response is the status 415 with the body
  \<open>rpc: unrecognized Content-Type: \<close> followed by the value.
\<close>

theorem ServeHTTP_codec_selection:
  assumes post: "reqMethod r = ''POST''"
  shows "(stripParams (headerGet r ''Content-Type'') = [] \<and> codecs s = [(k, c)]
            \<longrightarrow> ServeHTTP s w r = serveCodec s c w r)
       \<and> (\<not> (stripParams (headerGet r ''Content-Type'') = [] \<and> length (codecs s) = 1)
            \<and> map_of (codecs s) (ToLower (stripParams (headerGet r ''Content-Type''))) = Some c
            \<longrightarrow> ServeHTTP s w r = serveCodec s c w r)
       \<and> (\<not> (stripParams (headerGet r ''Content-Type'') = [] \<and> length (codecs s) = 1)
            \<and> map_of (codecs s) (ToLower (stripParams (headerGet r ''Content-Type''))) = None
            \<longrightarrow> ServeHTTP s w r
                 = rejected (WriteError w 415 (''rpc: unrecognized Content-Type: ''
                                                @ stripParams (headerGet r ''Content-Type''))))
       \<and> map_of (codecs (RegisterCodec s c contentType)) (ToLower contentType) = Some c
       \<and> CHR '';'' \<notin> set (stripParams v)
       \<and> (v = stripParams v \<or> (\<exists>rest. v = stripParams v @ CHR '';'' # rest))
       \<and> status (WriteError newResponseWriter 415 msg) = 415
       \<and> body (WriteError newResponseWriter 415 msg) = [Text msg]"
proof -
  have a: "stripParams (headerGet r ''Content-Type'') = [] \<and> codecs s = [(k, c)]
            \<longrightarrow> ServeHTTP s w r = serveCodec s c w r"
    using post by (simp add: ServeHTTP_def selectCodec_def Let_def)
  have b: "\<not> (stripParams (headerGet r ''Content-Type'') = [] \<and> length (codecs s) = 1)
            \<and> map_of (codecs s) (ToLower (stripParams (headerGet r ''Content-Type''))) = Some c
            \<longrightarrow> ServeHTTP s w r = serveCodec s c w r"
    using post by (auto simp: ServeHTTP_def selectCodec_def Let_def)
  have c: "\<not> (stripParams (headerGet r ''Content-Type'') = [] \<and> length (codecs s) = 1)
            \<and> map_of (codecs s) (ToLower (stripParams (headerGet r ''Content-Type''))) = None
            \<longrightarrow> ServeHTTP s w r
                 = rejected (WriteError w 415 (''rpc: unrecognized Content-Type: ''
                                                @ stripParams (headerGet r ''Content-Type'')))"
    using post by (auto simp: ServeHTTP_def selectCodec_def Let_def)
  have d: "map_of (codecs (RegisterCodec s c contentType)) (ToLower contentType) = Some c"
    by (simp add: RegisterCodec_def update_conv')
  from a b c d stripParams_prefix [of v] WriteError_fresh [of 415 msg]
  show ?thesis by simp
qed

lemma content_type_samples:
  "stripParams (headerGet (postAs ''text/xml'' b) ''Content-Type'') = ''text/xml''"
  "stripParams (headerGet (postAs ''Application/JSON; charset=utf-8'' b) ''Content-Type'')
     = ''Application/JSON''"
  "stripParams (headerGet (postPlain b) ''Content-Type'') = []"
  "reqMethod (postAs t b) = ''POST''" "reqMethod (postPlain b) = ''POST''"
  "ToLower ''text/xml'' = ''text/xml''"
  by (simp_all add: postAs_def postPlain_def stripParams_def headerGet_def ToLower_def
        toLowerByte_def isUpperByte_def)

theorem ServeHTTP_codec_selection_witness:
  "reqMethod (postAs ''text/xml'' multiplyKeyBody) = ''POST''
   \<and> map_of (codecs testServer) ''text/xml'' = None
   \<and> status (resp (ServeHTTP testServer newResponseWriter (postAs ''text/xml'' multiplyKeyBody))) = 415
   \<and> body (resp (ServeHTTP testServer newResponseWriter (postAs ''text/xml'' multiplyKeyBody)))
       = [Text ''rpc: unrecognized Content-Type: text/xml'']
   \<and> body (resp (ServeHTTP testServer newResponseWriter
                     (postAs ''Application/JSON; charset=utf-8'' multiplyKeyBody)))
       = [Json DefaultEncoder
            \<lparr>resVersion = ''2.0'', resResult = Some (VStruct [(''Result'', VInt 8)]),
             resError = None, resId = Some ''1''\<rparr>]
   \<and> length (codecs testServer) = 1
   \<and> body (resp (ServeHTTP testServer newResponseWriter (postPlain multiplyKeyBody)))
       = [Json DefaultEncoder
            \<lparr>resVersion = ''2.0'', resResult = Some (VStruct [(''Result'', VInt 8)]),
             resError = None, resId = Some ''1''\<rparr>]"
proof -
  let ?codec = "json2Codec sampleJSON Select"
  note T1 = ServeHTTP_codec_selection [OF content_type_samples(4), of "''text/xml''" multiplyKeyBody
               testServer _ _ newResponseWriter]
  note T2 = ServeHTTP_codec_selection [OF content_type_samples(4),
               of "''Application/JSON; charset=utf-8''" multiplyKeyBody testServer _ ?codec
               newResponseWriter]
  note T3 = ServeHTTP_codec_selection [OF content_type_samples(5), of multiplyKeyBody testServer
               "''application/json''" ?codec newResponseWriter]
  have none: "map_of (codecs testServer) ''text/xml'' = None"
    by (simp add: testServer_fields)
  have some: "map_of (codecs testServer) ''application/json'' = Some ?codec"
    by (simp add: testServer_fields)
  have one: "length (codecs testServer) = 1" by (simp add: testServer_fields)
  from T1 none
  have r1: "ServeHTTP testServer newResponseWriter (postAs ''text/xml'' multiplyKeyBody)
      = rejected (WriteError newResponseWriter 415 (''rpc: unrecognized Content-Type: '' @ ''text/xml''))"
    by (simp add: content_type_samples)
  from T2 some
  have r2: "ServeHTTP testServer newResponseWriter
               (postAs ''Application/JSON; charset=utf-8'' multiplyKeyBody)
      = serveCodec testServer ?codec newResponseWriter
               (postAs ''Application/JSON; charset=utf-8'' multiplyKeyBody)"
    by (simp add: content_type_samples ToLower_samples)
  from T3
  have r3: "ServeHTTP testServer newResponseWriter (postPlain multiplyKeyBody)
      = serveCodec testServer ?codec newResponseWriter (postPlain multiplyKeyBody)"
    by (simp add: content_type_samples testServer_fields)
  have e2: "body (resp (serveCodec testServer ?codec newResponseWriter
               (postAs ''Application/JSON; charset=utf-8'' multiplyKeyBody)))
       = [Json DefaultEncoder
            \<lparr>resVersion = ''2.0'', resResult = Some (VStruct [(''Result'', VInt 8)]),
             resError = None, resId = Some ''1''\<rparr>]"
    by code_simp
  have e3: "body (resp (serveCodec testServer ?codec newResponseWriter (postPlain multiplyKeyBody)))
       = [Json DefaultEncoder
            \<lparr>resVersion = ''2.0'', resResult = Some (VStruct [(''Result'', VInt 8)]),
             resError = None, resId = Some ''1''\<rparr>]"
    by code_simp
  show ?thesis
    unfolding r1 r2 r3 e2 e3
    by (simp add: content_type_samples none one rejected_def WriteError_fresh)
qed

section \<open>The header against MIME sniffing\<close>

lemma writeServerResponse_header:
  "k \<noteq> ''Content-Type'' \<Longrightarrow> k \<noteq> ''Content-Encoding''
   \<Longrightarrow> header (writeServerResponse c w res) k = header w k"
  by (cases "encoder c")
     (auto simp: writeServerResponse_def setHeader_def WriteError_def Write_def WriteHeader_def
           encodeDefault_def Let_def split: option.splits)

lemma json2_writers_keep_nosniff:
  "header (CodecRequest_WriteResponse c w reply) ''X-Content-Type-Options''
     = header w ''X-Content-Type-Options''"
  "header (CodecRequest_WriteError c w st err) ''X-Content-Type-Options''
     = header w ''X-Content-Type-Options''"
  by (simp_all add: CodecRequest_WriteResponse_def CodecRequest_WriteError_def
        writeServerResponse_header)

lemma WriteError_keeps_nosniff:
  "header (WriteError w st msg) ''X-Content-Type-Options'' = header w ''X-Content-Type-Options''"
  by (simp add: WriteError_def Write_def WriteHeader_def setHeader_def)

text \<open>
  C2, as the code has it. \<open>ServeHTTP\<close> sets \<open>X-Content-Type-Options: nosniff\<close> on the
  response of every request that it dispatches, which is one that is a POST, has a
  codec, names a registered method and has arguments that decode: the header is set
  before the codec writes the reply or the error of the method, so with the JSON-RPC
  2.0 codec the response carries it in both cases. The responses 405 and 415 leave the
  header as it was, and where the method cannot be extracted, is not found, or the
  arguments do not decode, the codec's \<open>WriteError\<close> gets the response without it.
\<close>

theorem nosniff_set_when_dispatched:
  "(reqMethod r \<noteq> ''POST'' \<longrightarrow>
      header (resp (ServeHTTP s w r)) ''X-Content-Type-Options'' = header w ''X-Content-Type-Options'')
   \<and> (reqMethod r = ''POST'' \<and> selectCodec s (stripParams (headerGet r ''Content-Type'')) = None \<longrightarrow>
      header (resp (ServeHTTP s w r)) ''X-Content-Type-Options'' = header w ''X-Content-Type-Options'')
   \<and> (reqMethod r = ''POST''
        \<and> selectCodec s (stripParams (headerGet r ''Content-Type'')) = Some codec
        \<and> cMethod codec (NewRequest codec r) = (mname, Some e1)
      \<longrightarrow> resp (ServeHTTP s w r) = cWriteError codec (NewRequest codec r) w 400 e1)
   \<and> (reqMethod r = ''POST''
        \<and> selectCodec s (stripParams (headerGet r ''Content-Type'')) = Some codec
        \<and> cMethod codec (NewRequest codec r) = (mname, None)
        \<and> get (services s) mname = Inl e2
      \<longrightarrow> resp (ServeHTTP s w r) = cWriteError codec (NewRequest codec r) w 400 e2)
   \<and> (reqMethod r = ''POST''
        \<and> selectCodec s (stripParams (headerGet r ''Content-Type'')) = Some codec
        \<and> cMethod codec (NewRequest codec r) = (mname, None)
        \<and> get (services s) mname = Inr (serviceSpec, methodSpec)
        \<and> cReadRequest codec (NewRequest codec r) (zeroOf (sm_argsType methodSpec)) = (c3, args3, Some e3)
      \<longrightarrow> resp (ServeHTTP s w r) = cWriteError codec c3 w 400 e3)
   \<and> (reqMethod r = ''POST''
        \<and> selectCodec s (stripParams (headerGet r ''Content-Type'')) = Some codec
        \<and> cMethod codec (NewRequest codec r) = (mname, None)
        \<and> get (services s) mname = Inr (serviceSpec, methodSpec)
        \<and> cReadRequest codec (NewRequest codec r) (zeroOf (sm_argsType methodSpec)) = (c2, args, None)
        \<and> runIntercept s mname r = (r1, ev1)
        \<and> runBefore s mname r1 = (r2, requestInfo, ev2)
        \<and> callMethod s serviceSpec methodSpec mname requestInfo r2 args = (reply, errResult, ev3)
      \<longrightarrow>
        resp (ServeHTTP s w r)
          = (case errResult of
               None \<Rightarrow> cWriteResponse codec c2 (setHeader ''X-Content-Type-Options'' ''nosniff'' w) reply
             | Some e \<Rightarrow> cWriteError codec c2 (setHeader ''X-Content-Type-Options'' ''nosniff'' w) 400 e)
        \<and> header (setHeader ''X-Content-Type-Options'' ''nosniff'' w) ''X-Content-Type-Options''
            = Some ''nosniff''
        \<and> (codec = json2Codec lib encSel \<longrightarrow>
             header (resp (ServeHTTP s w r)) ''X-Content-Type-Options'' = Some ''nosniff''))"
proof -
  have a: "reqMethod r \<noteq> ''POST'' \<longrightarrow>
      header (resp (ServeHTTP s w r)) ''X-Content-Type-Options'' = header w ''X-Content-Type-Options''"
    by (simp add: ServeHTTP_def rejected_def WriteError_keeps_nosniff)
  have b: "reqMethod r = ''POST'' \<and> selectCodec s (stripParams (headerGet r ''Content-Type'')) = None \<longrightarrow>
      header (resp (ServeHTTP s w r)) ''X-Content-Type-Options'' = header w ''X-Content-Type-Options''"
    by (simp add: ServeHTTP_def Let_def rejected_def WriteError_keeps_nosniff)
  have e1: "resp (ServeHTTP s w r) = cWriteError codec (NewRequest codec r) w 400 e1"
    if "reqMethod r = ''POST''"
      and "selectCodec s (stripParams (headerGet r ''Content-Type'')) = Some codec"
      and "cMethod codec (NewRequest codec r) = (mname, Some e1)"
    using that by (simp add: ServeHTTP_selected serveCodec_def Let_def rejected_def)
  have e2: "resp (ServeHTTP s w r) = cWriteError codec (NewRequest codec r) w 400 e2"
    if "reqMethod r = ''POST''"
      and "selectCodec s (stripParams (headerGet r ''Content-Type'')) = Some codec"
      and "cMethod codec (NewRequest codec r) = (mname, None)"
      and "get (services s) mname = Inl e2"
    using that by (simp add: ServeHTTP_selected serveCodec_def Let_def rejected_def)
  have e3: "resp (ServeHTTP s w r) = cWriteError codec c3 w 400 e3"
    if "reqMethod r = ''POST''"
      and "selectCodec s (stripParams (headerGet r ''Content-Type'')) = Some codec"
      and "cMethod codec (NewRequest codec r) = (mname, None)"
      and "get (services s) mname = Inr (serviceSpec, methodSpec)"
      and "cReadRequest codec (NewRequest codec r) (zeroOf (sm_argsType methodSpec)) = (c3, args3, Some e3)"
    using that by (simp add: ServeHTTP_selected serveCodec_def Let_def rejected_def)
  have c: "resp (ServeHTTP s w r)
          = (case errResult of
               None \<Rightarrow> cWriteResponse codec c2 (setHeader ''X-Content-Type-Options'' ''nosniff'' w) reply
             | Some e \<Rightarrow> cWriteError codec c2 (setHeader ''X-Content-Type-Options'' ''nosniff'' w) 400 e)
        \<and> header (setHeader ''X-Content-Type-Options'' ''nosniff'' w) ''X-Content-Type-Options''
            = Some ''nosniff''
        \<and> (codec = json2Codec lib encSel \<longrightarrow>
             header (resp (ServeHTTP s w r)) ''X-Content-Type-Options'' = Some ''nosniff'')"
    if post: "reqMethod r = ''POST''"
      and sel: "selectCodec s (stripParams (headerGet r ''Content-Type'')) = Some codec"
      and m: "cMethod codec (NewRequest codec r) = (mname, None)"
      and g: "get (services s) mname = Inr (serviceSpec, methodSpec)"
      and rd: "cReadRequest codec (NewRequest codec r) (zeroOf (sm_argsType methodSpec)) = (c2, args, None)"
      and i: "runIntercept s mname r = (r1, ev1)"
      and bf: "runBefore s mname r1 = (r2, requestInfo, ev2)"
      and call: "callMethod s serviceSpec methodSpec mname requestInfo r2 args = (reply, errResult, ev3)"
  proof -
    have "ServeHTTP s w r = serveCodec s codec w r" using post sel by (rule ServeHTTP_selected)
    also note serveCodec_reached [OF m g rd i bf call]
    finally have r: "resp (ServeHTTP s w r)
          = (case errResult of
               None \<Rightarrow> cWriteResponse codec c2 (setHeader ''X-Content-Type-Options'' ''nosniff'' w) reply
             | Some e \<Rightarrow> cWriteError codec c2 (setHeader ''X-Content-Type-Options'' ''nosniff'' w) 400 e)"
      by simp
    have h: "header (setHeader ''X-Content-Type-Options'' ''nosniff'' w) ''X-Content-Type-Options''
            = Some ''nosniff''"
      by (simp add: setHeader_def)
    have "header (resp (ServeHTTP s w r)) ''X-Content-Type-Options'' = Some ''nosniff''"
      if "codec = json2Codec lib encSel"
      unfolding r using that h
      by (cases errResult) (simp_all add: json2Codec_fields json2_writers_keep_nosniff)
    with r h show ?thesis by simp
  qed
  from a b e1 e2 e3 c show ?thesis by blast
qed
lemma multiply_dispatch:
  "cMethod (json2Codec sampleJSON Select) (NewRequest (json2Codec sampleJSON Select) (post multiplyKeyBody))
     = (''Service1/multiply'', None)"
  "cReadRequest (json2Codec sampleJSON Select) (NewRequest (json2Codec sampleJSON Select) (post multiplyKeyBody))
       (zeroOf (sm_argsType multiplySpec))
     = (newCodecRequest sampleJSON (post multiplyKeyBody) (Select (post multiplyKeyBody)),
        VStruct [(''A'', VInt 4), (''B'', VInt 2)], None)"
  unfolding json2Codec_fields by code_simp+

lemma testServer_hooks:
  "runIntercept testServer method r = (r, [])"
  "runBefore testServer method r
     = (r, \<lparr>riMethod = method, riError = None, riRequest = r, riStatusCode = 0\<rparr>, [])"
  "runAfter testServer method r e st = []"
  by (simp_all add: runIntercept_def runBefore_def runAfter_def testServer_fields)

lemma testServer_calls_Multiply:
  "callMethod testServer service1 multiplySpec method info r (VStruct [(''A'', VInt 4), (''B'', VInt 2)])
     = (VStruct [(''Result'', VInt 8)], None, [Invoke method (VStruct [(''A'', VInt 4), (''B'', VInt 2)])])"
  by (simp add: callMethod_def testServer_fields multiplySpec_def MultiplyMethod_def
        service1_def Service1Response_def)

lemma early_returns:
  "cMethod (json2Codec sampleJSON Select) (NewRequest (json2Codec sampleJSON Select) (post brokenBody))
     = ([], Some (JsonError \<lparr>Code = E_INVALID_REQ, Message = ''jsonrpc must be 2.0'',
                             Data = DReq zeroRequest\<rparr>))"
  "cMethod (json2Codec sampleJSON Select) (NewRequest (json2Codec sampleJSON Select) (post multiplyBody))
     = (''Service1.Multiply'', None)"
  "cMethod (json2Codec sampleJSON Select) (NewRequest (json2Codec sampleJSON Select) (post badParamsBody))
     = (''Service1/multiply'', None)"
  "snd (snd (cReadRequest (json2Codec sampleJSON Select)
               (NewRequest (json2Codec sampleJSON Select) (post badParamsBody))
               (zeroOf (sm_argsType multiplySpec)))) \<noteq> None"
  unfolding json2Codec_fields by code_simp+

lemma Service1_dotted_missing:
  "get service1Map ''Service1.Multiply''
     = Inl (PlainError (''rpc: can't find service method '' @ fmt_q ''Service1.Multiply''))"
  by (simp add: service1Map_def get_def registry_eval Service1_def)

theorem nosniff_set_when_dispatched_witness:
  "reqMethod getRequest \<noteq> ''POST''
   \<and> header (resp (ServeHTTP testServer newResponseWriter getRequest)) ''X-Content-Type-Options'' = None
   \<and> reqMethod (postAs ''text/xml'' multiplyKeyBody) = ''POST''
   \<and> selectCodec testServer (stripParams (headerGet (postAs ''text/xml'' multiplyKeyBody) ''Content-Type''))
       = None
   \<and> header (resp (ServeHTTP testServer newResponseWriter (postAs ''text/xml'' multiplyKeyBody)))
        ''X-Content-Type-Options'' = None
   \<and> header (resp (ServeHTTP testServer newResponseWriter (post brokenBody)))
        ''X-Content-Type-Options'' = None
   \<and> header (resp (ServeHTTP testServer newResponseWriter (post multiplyBody)))
        ''X-Content-Type-Options'' = None
   \<and> header (resp (ServeHTTP testServer newResponseWriter (post badParamsBody)))
        ''X-Content-Type-Options'' = None
   \<and> reqMethod (post multiplyKeyBody) = ''POST''
   \<and> header (resp (ServeHTTP testServer newResponseWriter (post multiplyKeyBody)))
        ''X-Content-Type-Options'' = Some ''nosniff''"
proof -
  let ?codec = "json2Codec sampleJSON Select"
  let ?r = "post multiplyKeyBody"
  have g1: "reqMethod getRequest \<noteq> ''POST''" by code_simp
  have w0: "header newResponseWriter ''X-Content-Type-Options'' = None"
    by (simp add: newResponseWriter_def)
  have none: "selectCodec testServer
                (stripParams (headerGet (postAs ''text/xml'' multiplyKeyBody) ''Content-Type'')) = None"
    by (simp add: selectCodec_def content_type_samples testServer_fields)
  have sel: "selectCodec testServer (stripParams (headerGet (post b) ''Content-Type'')) = Some ?codec"
    for b by (simp add: post_content_type select_json2)
  have g: "get (services testServer) ''Service1/multiply'' = Inr (service1, multiplySpec)"
    by (simp add: testServer_fields service1Map_get)
  have g2: "get (services testServer) ''Service1.Multiply''
     = Inl (PlainError (''rpc: can't find service method '' @ fmt_q ''Service1.Multiply''))"
    by (simp add: testServer_fields Service1_dotted_missing)
  obtain c3 args3 e3 where rd3: "cReadRequest ?codec (NewRequest ?codec (post badParamsBody))
               (zeroOf (sm_argsType multiplySpec)) = (c3, args3, Some e3)"
    using early_returns(4)
    by (cases "cReadRequest ?codec (NewRequest ?codec (post badParamsBody))
               (zeroOf (sm_argsType multiplySpec))") auto
  note T1 = nosniff_set_when_dispatched [where r = getRequest and s = testServer
               and w = newResponseWriter]
  note T2 = nosniff_set_when_dispatched [where r = "postAs ''text/xml'' multiplyKeyBody"
               and s = testServer and w = newResponseWriter]
  note T3 = nosniff_set_when_dispatched [where r = ?r and s = testServer
               and w = newResponseWriter and codec = ?codec and mname = "''Service1/multiply''"
               and serviceSpec = service1 and methodSpec = multiplySpec
               and ?c2.0 = "newCodecRequest sampleJSON ?r (Select ?r)"
               and args = "VStruct [(''A'', VInt 4), (''B'', VInt 2)]"
               and ?r1.0 = ?r and ?ev1.0 = "[]" and ?r2.0 = ?r
               and requestInfo = "\<lparr>riMethod = ''Service1/multiply'', riError = None,
                                   riRequest = ?r, riStatusCode = 0\<rparr>"
               and ?ev2.0 = "[]" and reply = "VStruct [(''Result'', VInt 8)]"
               and errResult = None
               and ?ev3.0 = "[Invoke ''Service1/multiply'' (VStruct [(''A'', VInt 4), (''B'', VInt 2)])]"
               and lib = sampleJSON and encSel = Select]
  note T4 = nosniff_set_when_dispatched [where r = "post brokenBody" and s = testServer
               and w = newResponseWriter and codec = ?codec and mname = "[]"
               and ?e1.0 = "JsonError \<lparr>Code = E_INVALID_REQ, Message = ''jsonrpc must be 2.0'',
                                        Data = DReq zeroRequest\<rparr>"]
  note T5 = nosniff_set_when_dispatched [where r = "post multiplyBody" and s = testServer
               and w = newResponseWriter and codec = ?codec and mname = "''Service1.Multiply''"
               and ?e2.0 = "PlainError (''rpc: can't find service method '' @ fmt_q ''Service1.Multiply'')"]
  note T6 = nosniff_set_when_dispatched [where r = "post badParamsBody" and s = testServer
               and w = newResponseWriter and codec = ?codec and mname = "''Service1/multiply''"
               and serviceSpec = service1 and methodSpec = multiplySpec
               and ?c3.0 = c3 and ?args3.0 = args3 and ?e3.0 = e3]
  from T1 g1 w0
  have a: "header (resp (ServeHTTP testServer newResponseWriter getRequest))
             ''X-Content-Type-Options'' = None"
    by simp
  from T2 none w0
  have b: "header (resp (ServeHTTP testServer newResponseWriter (postAs ''text/xml'' multiplyKeyBody)))
        ''X-Content-Type-Options'' = None"
    by (simp add: content_type_samples)
  from T3 sel g multiply_dispatch testServer_hooks testServer_calls_Multiply post_content_type(1)
  have c: "header (resp (ServeHTTP testServer newResponseWriter ?r))
        ''X-Content-Type-Options'' = Some ''nosniff''"
    by blast
  from T4 sel early_returns(1) post_content_type(1)
  have "resp (ServeHTTP testServer newResponseWriter (post brokenBody))
          = cWriteError ?codec (NewRequest ?codec (post brokenBody)) newResponseWriter 400
              (JsonError \<lparr>Code = E_INVALID_REQ, Message = ''jsonrpc must be 2.0'',
                             Data = DReq zeroRequest\<rparr>)"
    by blast
  then have d: "header (resp (ServeHTTP testServer newResponseWriter (post brokenBody)))
        ''X-Content-Type-Options'' = None"
    by (simp add: json2Codec_fields json2_writers_keep_nosniff w0)
  from T5 sel early_returns(2) g2 post_content_type(1)
  have "resp (ServeHTTP testServer newResponseWriter (post multiplyBody))
          = cWriteError ?codec (NewRequest ?codec (post multiplyBody)) newResponseWriter 400
              (PlainError (''rpc: can't find service method '' @ fmt_q ''Service1.Multiply''))"
    by blast
  then have e: "header (resp (ServeHTTP testServer newResponseWriter (post multiplyBody)))
        ''X-Content-Type-Options'' = None"
    by (simp add: json2Codec_fields json2_writers_keep_nosniff w0)
  from T6 sel early_returns(3) g rd3 post_content_type(1)
  have "resp (ServeHTTP testServer newResponseWriter (post badParamsBody))
          = cWriteError ?codec c3 newResponseWriter 400 e3"
    by blast
  then have f: "header (resp (ServeHTTP testServer newResponseWriter (post badParamsBody)))
        ''X-Content-Type-Options'' = None"
    by (simp add: json2Codec_fields json2_writers_keep_nosniff w0)
  from g1 a none b c d e f show ?thesis by (simp add: content_type_samples post_content_type)
qed

text \<open>
  C2 as it is stated fails on a GET request: the response is the status 405 without the
  header.
\<close>

theorem nosniff_missing_counterexample:
  "status (resp (ServeHTTP testServer newResponseWriter getRequest)) = 405
   \<and> header (resp (ServeHTTP testServer newResponseWriter getRequest)) ''X-Content-Type-Options'' = None"
  by code_simp

section \<open>What the JSON-RPC 2.0 codec writes\<close>








subsection \<open>Errors of the method\<close>








subsection \<open>Notifications\<close>






end
